theory Spec2Isabelle
  imports Main
begin

section \<open>Strings and the path functions of the Python library\<close>

text \<open>
  The converter is one Python file, \<^verbatim>\<open>audio-converter.py\<close>. Its paths and format tokens
  are Python strings, modelled as \<open>string\<close>; a character is a code point below 256.
  The functions of this section are the ones the program calls from the standard library
  (\<^verbatim>\<open>str.lower\<close>, \<^verbatim>\<open>str.join\<close>, \<^verbatim>\<open>str.replace\<close> and \<^verbatim>\<open>os.path\<close>), written after
  the library's own code. \<^verbatim>\<open>os.path\<close> is taken to be \<^verbatim>\<open>posixpath\<close>: the only separator
  is the forward slash, to which \<^verbatim>\<open>main\<close> normalises every path it receives.
\<close>

definition sep :: char where
  "sep = CHR ''/''"

definition extsep :: char where
  "extsep = CHR ''.''"

text \<open>
  \<^verbatim>\<open>c.lower()\<close> on one code point below 256: the ASCII capitals and the Latin-1 capitals
  (\<^verbatim>\<open>U+00C0\<close> to \<^verbatim>\<open>U+00DE\<close>, the multiplication sign \<^verbatim>\<open>U+00D7\<close> apart) move up by 32.
\<close>

definition lower_char :: "char \<Rightarrow> char" where
  "lower_char c =
     (let n = (of_char c :: nat)
      in if (65 \<le> n \<and> n \<le> 90) \<or> (192 \<le> n \<and> n \<le> 222 \<and> n \<noteq> 215)
         then char_of (n + 32) else c)"

definition lower :: "string \<Rightarrow> string" where
  "lower s = map lower_char s"

text \<open>\<^verbatim>\<open>s.replace(a, b)\<close> for one-character \<open>a\<close> and \<open>b\<close>.\<close>

definition replace_char :: "char \<Rightarrow> char \<Rightarrow> string \<Rightarrow> string" where
  "replace_char a b s = map (\<lambda>c. if c = a then b else c) s"

text \<open>\<^verbatim>\<open>d.join(xs)\<close>.\<close>

fun str_join :: "string \<Rightarrow> string list \<Rightarrow> string" where
  "str_join d [] = []"
| "str_join d [x] = x"
| "str_join d (x # y # ys) = x @ d @ str_join d (y # ys)"

text \<open>
  \<^verbatim>\<open>p[:p.rfind(c) + 1]\<close> and \<^verbatim>\<open>p[p.rfind(c) + 1:]\<close>: the part of \<open>p\<close> up to and with
  its last \<open>c\<close> (empty when \<open>p\<close> has none), and the part after it.
\<close>

definition upto_last :: "char \<Rightarrow> string \<Rightarrow> string" where
  "upto_last c p = rev (dropWhile (\<lambda>x. x \<noteq> c) (rev p))"

definition after_last :: "char \<Rightarrow> string \<Rightarrow> string" where
  "after_last c p = rev (takeWhile (\<lambda>x. x \<noteq> c) (rev p))"

text \<open>\<^verbatim>\<open>s.rstrip(c)\<close> for one character.\<close>

definition rstrip :: "char \<Rightarrow> string \<Rightarrow> string" where
  "rstrip c s = rev (dropWhile (\<lambda>x. x = c) (rev s))"

text \<open>
  \<^verbatim>\<open>
  def basename(p):
      i = p.rfind(sep) + 1
      return p[i:]

  def dirname(p):
      i = p.rfind(sep) + 1
      head = p[:i]
      if head and head != sep*len(head):
          head = head.rstrip(sep)
      return head
  \<close>
\<close>

definition basename :: "string \<Rightarrow> string" where
  "basename p = after_last sep p"

definition dirname :: "string \<Rightarrow> string" where
  "dirname p =
     (let head = upto_last sep p
      in if head \<noteq> [] \<and> head \<noteq> replicate (length head) sep then rstrip sep head else head)"

text \<open>
  \<^verbatim>\<open>
  def _splitext(p, sep, altsep, extsep):
      sepIndex = p.rfind(sep)
      dotIndex = p.rfind(extsep)
      if dotIndex > sepIndex:
          # skip all leading dots
          filenameIndex = sepIndex + 1
          while filenameIndex < dotIndex:
              if p[filenameIndex:filenameIndex+1] != extsep:
                  return p[:dotIndex], p[dotIndex:]
              filenameIndex += 1
      return p, p[:0]
  \<close>
  The last dot lies after the last separator exactly when the last component \<open>b\<close> has a
  dot; the loop runs over the characters of \<open>b\<close> before its last dot and splits at the
  first one that is not a dot.
\<close>

definition splitext :: "string \<Rightarrow> string \<times> string" where
  "splitext p =
     (let b = after_last sep p;
          before_dot = butlast (upto_last extsep b)
      in if extsep \<in> set b \<and> list_ex (\<lambda>c. c \<noteq> extsep) before_dot
         then (upto_last sep p @ before_dot, extsep # after_last extsep b)
         else (p, []))"

text \<open>
  \<^verbatim>\<open>
  def join(a, b):
      path = a
      if b.startswith(sep):
          path = b
      elif not path or path.endswith(sep):
          path += b
      else:
          path += sep + b
      return path
  \<close>
\<close>

definition startswith :: "string \<Rightarrow> char \<Rightarrow> bool" where
  "startswith s c = (case s of [] \<Rightarrow> False | x # _ \<Rightarrow> x = c)"

definition endswith :: "string \<Rightarrow> char \<Rightarrow> bool" where
  "endswith s c = (case rev s of [] \<Rightarrow> False | x # _ \<Rightarrow> x = c)"

definition join :: "string \<Rightarrow> string \<Rightarrow> string" where
  "join a b =
     (if startswith b sep then b
      else if a = [] \<or> endswith a sep then a @ b
      else a @ sep # b)"

section \<open>The format validator\<close>

text \<open>
  \<^verbatim>\<open>
  def get_supported_formats():
      return ['mp3', 'wav', 'ogg', 'm4a', 'flac', 'aac', 'wma']

  def validate_format(format_str):
      return format_str.lower() in get_supported_formats()
  \<close>
\<close>

definition get_supported_formats :: "string list" where
  "get_supported_formats = [''mp3'', ''wav'', ''ogg'', ''m4a'', ''flac'', ''aac'', ''wma'']"

definition validate_format :: "string \<Rightarrow> bool" where
  "validate_format format_str = (lower format_str \<in> set get_supported_formats)"

section \<open>The world outside the program\<close>

text \<open>
  An exception is its class name (\<^verbatim>\<open>type(e).__name__\<close>) and its text (\<^verbatim>\<open>str(e)\<close>). Every
  exception of the model is an instance of \<^verbatim>\<open>Exception\<close>; an interrupt of the process is
  not modelled.
\<close>

datatype exc = Exc (exc_type: string) (exc_msg: string)

text \<open>
  What \<^verbatim>\<open>subprocess.run(['ffmpeg', '-version'], ..., check=True)\<close> does: it returns, it
  raises one of the exceptions \<^verbatim>\<open>check_ffmpeg\<close> catches (\<^verbatim>\<open>SubprocessError\<close>,
  \<^verbatim>\<open>FileNotFoundError\<close>), or it raises another one (a \<^verbatim>\<open>PermissionError\<close>, say).
\<close>

datatype probe = Completed | Caught exc | Uncaught exc

text \<open>
  The command line as \<^verbatim>\<open>argparse\<close> leaves it: the namespace of the three options, or the
  exit status with which \<^verbatim>\<open>parse_args\<close> ends the process itself.
\<close>

record namespace =
  ns_input :: "string option"
  ns_output_format :: "string option"
  ns_output :: "string option"

datatype parsed = Namespace string string "string option" | SystemExit int

text \<open>
  The program reads the file system and calls the engine; the answers it gets are the
  fields of a \<open>world\<close>. \<open>'a\<close> is the type of a decoded \<^verbatim>\<open>AudioSegment\<close>.
  \<open>os_mkdir w d\<close> is what creating \<open>d\<close> with its missing parents raises, if it raises
  (an \<^verbatim>\<open>OSError\<close>); \<open>print_raises w s\<close> is what \<^verbatim>\<open>print(s)\<close> raises, if it raises (the
  standard output is closed, or cannot encode \<open>s\<close>); \<open>argparse_other\<close> is what
  \<^verbatim>\<open>parse_args\<close> does on a command line outside the fragment written out below.
\<close>

record 'a world =
  subprocess_run :: probe
  os_path_exists :: "string \<Rightarrow> bool"
  os_path_isfile :: "string \<Rightarrow> bool"
  os_path_isdir :: "string \<Rightarrow> bool"
  os_mkdir :: "string \<Rightarrow> exc option"
  from_file :: "string \<Rightarrow> exc + 'a"
  export :: "'a \<Rightarrow> string \<Rightarrow> string \<Rightarrow> exc option"
  print_raises :: "string \<Rightarrow> exc option"
  argparse_other :: "string list \<Rightarrow> parsed"

text \<open>
  What the program does to the world, in order: the lines it prints, the engine's version
  query, the call of \<^verbatim>\<open>os.makedirs\<close>, and the two calls of the engine that make the
  conversion (\<^verbatim>\<open>AudioSegment.from_file\<close>, then \<^verbatim>\<open>export\<close> with the target path and the
  format). A \<^verbatim>\<open>print\<close> that raises leaves no line.
\<close>

datatype event =
    Print string
  | Print_help
  | Run_ffmpeg_version
  | Makedirs string
  | From_file string
  | Export string string

fun is_print :: "event \<Rightarrow> bool" where
  "is_print (Print _) = True"
| "is_print _ = False"

fun is_makedirs :: "event \<Rightarrow> bool" where
  "is_makedirs (Makedirs _) = True"
| "is_makedirs _ = False"

fun is_conversion :: "event \<Rightarrow> bool" where
  "is_conversion (From_file _) = True"
| "is_conversion (Export _ _) = True"
| "is_conversion _ = False"

text \<open>
  \<^verbatim>\<open>os.makedirs(name, exist_ok=...)\<close> ends with
  \<^verbatim>\<open>
      try:
          mkdir(name, mode)
      except OSError:
          if not exist_ok or not path.isdir(name):
              raise
  \<close>
\<close>

definition os_makedirs :: "'a world \<Rightarrow> string \<Rightarrow> bool \<Rightarrow> exc option" where
  "os_makedirs w name exist_ok =
     (case os_mkdir w name of
        None \<Rightarrow> None
      | Some e \<Rightarrow> if \<not> exist_ok \<or> \<not> os_path_isdir w name then Some e else None)"

section \<open>Statements, exceptions and handlers\<close>

text \<open>
  A piece of the program is run to the value it yields or to the exception that leaves it,
  together with the events it has made. \<open>and_then\<close> is the sequence of two statements:
  an exception of the first skips the second. \<open>except_Exception\<close> is
  \<^verbatim>\<open>try: ... except Exception as e: ...\<close>: an exception of the body runs the handler, and the
  handler's own outcome, an exception too, is the outcome of the whole.
\<close>

type_synonym 'r run = "(exc + 'r) \<times> event list"

definition returns :: "'r \<Rightarrow> 'r run" where
  "returns x = (Inr x, [])"

definition emit :: "event \<Rightarrow> unit run" where
  "emit ev = (Inr (), [ev])"

definition and_then :: "'r run \<Rightarrow> ('r \<Rightarrow> 's run) \<Rightarrow> 's run" where
  "and_then m k =
     (case m of
        (Inl e, t) \<Rightarrow> (Inl e, t)
      | (Inr x, t) \<Rightarrow> (case k x of (r, t') \<Rightarrow> (r, t @ t')))"

definition except_Exception :: "'r run \<Rightarrow> (exc \<Rightarrow> 'r run) \<Rightarrow> 'r run" where
  "except_Exception m handler =
     (case m of
        (Inl e, t) \<Rightarrow> (case handler e of (r, t') \<Rightarrow> (r, t @ t'))
      | (Inr x, t) \<Rightarrow> (Inr x, t))"

definition py_print :: "'a world \<Rightarrow> string \<Rightarrow> unit run" where
  "py_print w s = (case print_raises w s of None \<Rightarrow> (Inr (), [Print s]) | Some e \<Rightarrow> (Inl e, []))"

text \<open>The calls into the world that can raise.\<close>

definition call_makedirs :: "'a world \<Rightarrow> string \<Rightarrow> unit run" where
  "call_makedirs w d =
     (case os_makedirs w d True of None \<Rightarrow> (Inr (), [Makedirs d]) | Some e \<Rightarrow> (Inl e, [Makedirs d]))"

definition call_from_file :: "'a world \<Rightarrow> string \<Rightarrow> 'a run" where
  "call_from_file w p =
     (case from_file w p of Inr audio \<Rightarrow> (Inr audio, [From_file p]) | Inl e \<Rightarrow> (Inl e, [From_file p]))"

definition call_export :: "'a world \<Rightarrow> 'a \<Rightarrow> string \<Rightarrow> string \<Rightarrow> unit run" where
  "call_export w audio p f =
     (case export w audio p f of None \<Rightarrow> (Inr (), [Export p f]) | Some e \<Rightarrow> (Inl e, [Export p f]))"

section \<open>The engine availability check\<close>

definition ffmpeg_guidance :: string where
  "ffmpeg_guidance =
     ''FFmpeg not found. Please ensure ffmpeg.exe is:'' @ [CHR 0x0A] @
     ''1. Added to system PATH, or'' @ [CHR 0x0A] @
     ''2. Placed in the same directory as this script'' @ [CHR 0x0A] @
     ''Download FFmpeg from: https://github.com/BtbN/FFmpeg-Builds/releases''"

text \<open>
  \<^verbatim>\<open>
  def check_ffmpeg():
      try:
          subprocess.run(['ffmpeg', '-version'], ..., check=True)
          return True
      except (subprocess.SubprocessError, FileNotFoundError):
          if os.path.exists('ffmpeg.exe'):
              return True
          print("FFmpeg not found. ...")
          return False
  \<close>
  An exception of the version query that the handler does not take leaves the function,
  and so does an exception of the handler's \<^verbatim>\<open>print\<close>.
\<close>

definition check_ffmpeg :: "'a world \<Rightarrow> bool run" where
  "check_ffmpeg w =
     and_then (emit Run_ffmpeg_version) (\<lambda>_.
       case subprocess_run w of
         Completed \<Rightarrow> returns True
       | Caught _ \<Rightarrow>
           if os_path_exists w ''ffmpeg.exe'' then returns True
           else and_then (py_print w ffmpeg_guidance) (\<lambda>_. returns False)
       | Uncaught e \<Rightarrow> (Inl e, []))"

section \<open>The conversion\<close>

text \<open>
  Python's \<^verbatim>\<open>not output_file\<close>: true of \<^verbatim>\<open>None\<close> and of the empty string.
\<close>

definition falsy :: "string option \<Rightarrow> bool" where
  "falsy x = (case x of None \<Rightarrow> True | Some s \<Rightarrow> s = [])"

text \<open>
  Lines 68 to 82 of \<^verbatim>\<open>convert_audio\<close>, the resolution of the output path:
  \<^verbatim>\<open>
      original_filename = os.path.splitext(os.path.basename(input_file))[0]
      if not output_file:
          output_file = f"{original_filename}.{output_format}"
      elif os.path.isdir(output_file):
          output_file = os.path.join(output_file, f"{original_filename}.{output_format}")
      else:
          output_dir = os.path.dirname(output_file)
          if output_dir:
              output_file = os.path.join(output_dir, f"{original_filename}.{output_format}")
  \<close>
\<close>

definition original_filename :: "string \<Rightarrow> string" where
  "original_filename input_file = fst (splitext (basename input_file))"

definition resolve_output :: "'a world \<Rightarrow> string \<Rightarrow> string \<Rightarrow> string option \<Rightarrow> string" where
  "resolve_output w input_file output_format output_file =
     (let name = original_filename input_file @ ''.'' @ output_format
      in if falsy output_file then name
         else if os_path_isdir w (the output_file) then join (the output_file) name
         else (let output_dir = dirname (the output_file)
               in if output_dir \<noteq> [] then join output_dir name else the output_file))"

text \<open>
  Lines 84 to 92, the creation of the output directory; the value tells whether the run
  goes on. The \<^verbatim>\<open>print\<close> of line 89 stands inside the \<^verbatim>\<open>try\<close>, so that its exception is
  handled as one of \<^verbatim>\<open>os.makedirs\<close> would be.
  \<^verbatim>\<open>
      output_dir = os.path.dirname(output_file)
      if output_dir:
          try:
              os.makedirs(output_dir, exist_ok=True)
              print(f"Created/verified directory: {output_dir}")
          except Exception as e:
              print(f"Error creating directory {output_dir}: {str(e)}")
              return False
  \<close>
\<close>

definition create_output_dir :: "'a world \<Rightarrow> string \<Rightarrow> bool run" where
  "create_output_dir w output_file =
     (let output_dir = dirname output_file
      in if output_dir \<noteq> [] then
           except_Exception
             (and_then (call_makedirs w output_dir) (\<lambda>_.
              and_then (py_print w (''Created/verified directory: '' @ output_dir)) (\<lambda>_.
              returns True)))
             (\<lambda>e.
              and_then (py_print w (''Error creating directory '' @ output_dir @ '': '' @ exc_msg e))
                (\<lambda>_. returns False))
         else returns True)"

text \<open>
  Lines 104 to 117, the delegated conversion:
  \<^verbatim>\<open>
      try:
          print(f"Loading {input_file}...")
          audio = AudioSegment.from_file(input_file)
          print(f"Converting to {output_format}...")
          audio.export(output_file, format=output_format)
          print(f"Successfully saved to: {output_file}")
          return True
      except Exception as e:
          print(f"Conversion error: {str(e)}")
          print(f"Full error details: {type(e).__name__}")
          return False
  \<close>
\<close>

definition load_and_convert :: "'a world \<Rightarrow> string \<Rightarrow> string \<Rightarrow> string \<Rightarrow> bool run" where
  "load_and_convert w input_file output_format output_file =
     except_Exception
       (and_then (py_print w (''Loading '' @ input_file @ ''...'')) (\<lambda>_.
        and_then (call_from_file w input_file) (\<lambda>audio.
        and_then (py_print w (''Converting to '' @ output_format @ ''...'')) (\<lambda>_.
        and_then (call_export w audio output_file output_format) (\<lambda>_.
        and_then (py_print w (''Successfully saved to: '' @ output_file)) (\<lambda>_.
        returns True))))))
       (\<lambda>e.
        and_then (py_print w (''Conversion error: '' @ exc_msg e)) (\<lambda>_.
        and_then (py_print w (''Full error details: '' @ exc_type e)) (\<lambda>_.
        returns False)))"

text \<open>
  The body of the outer \<^verbatim>\<open>try\<close> of \<^verbatim>\<open>convert_audio\<close> (lines 53 to 117): the value it
  returns, or the exception that reaches the outer handler.
\<close>

definition convert_audio_try :: "'a world \<Rightarrow> string \<Rightarrow> string \<Rightarrow> string option \<Rightarrow> bool run" where
  "convert_audio_try w input_file output_format output_file =
     and_then (check_ffmpeg w) (\<lambda>available.
       if \<not> available then returns False
       else if \<not> os_path_isfile w input_file then
         and_then (py_print w (''Error: Input file not found: '' @ input_file)) (\<lambda>_.
         returns False)
       else if \<not> validate_format output_format then
         and_then (py_print w (''Error: Unsupported output format: '' @ output_format)) (\<lambda>_.
         and_then (py_print w (''Supported formats: '' @ str_join '', '' get_supported_formats))
           (\<lambda>_.
         returns False))
       else
         (let out = resolve_output w input_file output_format output_file
          in and_then (create_output_dir w out) (\<lambda>created.
               if \<not> created then returns False
               else load_and_convert w input_file output_format out)))"

text \<open>
  \<^verbatim>\<open>convert_audio\<close> with its outer handler (lines 119 to 121):
  \<^verbatim>\<open>
      except Exception as e:
          print(f"Unexpected error: {str(e)}")
          return False
  \<close>
  Nothing stands around the \<^verbatim>\<open>print\<close> of line 120: its exception reaches the caller.
\<close>

definition convert_audio :: "'a world \<Rightarrow> string \<Rightarrow> string \<Rightarrow> string option \<Rightarrow> bool run" where
  "convert_audio w input_file output_format output_file =
     except_Exception (convert_audio_try w input_file output_format output_file)
       (\<lambda>e. and_then (py_print w (''Unexpected error: '' @ exc_msg e)) (\<lambda>_. returns False))"

section \<open>The command line\<close>

text \<open>
  \<^verbatim>\<open>main\<close> declares three options that take one value each, \<^verbatim>\<open>--input\<close> and
  \<^verbatim>\<open>--output_format\<close> required and \<^verbatim>\<open>--output\<close> optional; \<^verbatim>\<open>argparse\<close> adds \<^verbatim>\<open>-h\<close> and
  \<^verbatim>\<open>--help\<close>. \<^verbatim>\<open>parse_args\<close> is written out for the command lines whose every word is
  one of these five option strings in full or a plain argument (empty, or not starting
  with a dash); on any other command line (abbreviated options, \<^verbatim>\<open>--input=x\<close>, unknown
  options, \<^verbatim>\<open>--\<close>, negative numbers) its outcome is the world's \<open>argparse_other\<close>.
  On the fragment \<^verbatim>\<open>argparse\<close> works from left to right: \<^verbatim>\<open>-h\<close> prints the help and
  exits with status 0; an option stores the plain argument that follows it and is an
  error without one; a plain argument elsewhere is kept as unrecognised. At the end a
  missing required option or an unrecognised argument is an error. An error exits with
  status 2. What \<^verbatim>\<open>argparse\<close> prints is not recorded.
\<close>

definition value_options :: "string list" where
  "value_options = [''--input'', ''--output_format'', ''--output'']"

definition option_strings :: "string list" where
  "option_strings = [''-h'', ''--help''] @ value_options"

definition plain_argument :: "string \<Rightarrow> bool" where
  "plain_argument a = (case a of [] \<Rightarrow> True | c # _ \<Rightarrow> c \<noteq> CHR ''-'')"

definition in_fragment :: "string list \<Rightarrow> bool" where
  "in_fragment args = list_all (\<lambda>a. plain_argument a \<or> a \<in> set option_strings) args"

definition store :: "string \<Rightarrow> string \<Rightarrow> namespace \<Rightarrow> namespace" where
  "store opt v ns =
     (if opt = ''--input'' then ns\<lparr>ns_input := Some v\<rparr>
      else if opt = ''--output_format'' then ns\<lparr>ns_output_format := Some v\<rparr>
      else ns\<lparr>ns_output := Some v\<rparr>)"

definition finish :: "namespace \<Rightarrow> bool \<Rightarrow> parsed" where
  "finish ns unrecognised =
     (case ns_input ns of
        None \<Rightarrow> SystemExit 2
      | Some i \<Rightarrow>
          (case ns_output_format ns of
             None \<Rightarrow> SystemExit 2
           | Some f \<Rightarrow> if unrecognised then SystemExit 2 else Namespace i f (ns_output ns)))"

fun parse_known :: "namespace \<Rightarrow> bool \<Rightarrow> string list \<Rightarrow> parsed" where
  "parse_known ns unrecognised [] = finish ns unrecognised"
| "parse_known ns unrecognised [a] =
     (if a = ''-h'' \<or> a = ''--help'' then SystemExit 0
      else if a \<in> set value_options then SystemExit 2
      else parse_known ns True [])"
| "parse_known ns unrecognised (a # v # rest) =
     (if a = ''-h'' \<or> a = ''--help'' then SystemExit 0
      else if a \<in> set value_options then
        (if plain_argument v then parse_known (store a v ns) unrecognised rest
         else SystemExit 2)
      else parse_known ns True (v # rest))"

definition parse_args :: "'a world \<Rightarrow> string list \<Rightarrow> parsed" where
  "parse_args w argv =
     (if in_fragment (tl argv)
      then parse_known \<lparr>ns_input = None, ns_output_format = None, ns_output = None\<rparr> False (tl argv)
      else argparse_other w argv)"

text \<open>
  \<^verbatim>\<open>
  def main():
      ...
      if len(sys.argv) == 1:
          parser.print_help()
          sys.exit(1)
      args = parser.parse_args()
      input_file = args.input.replace('\\', '/')
      output_file = args.output.replace('\\', '/') if args.output else None
      success = convert_audio(input_file, args.output_format, output_file)
      sys.exit(0 if success else 1)
  \<close>
  The result is the exit status of the process and the events made. An exception that
  leaves \<^verbatim>\<open>convert_audio\<close> ends the process with a traceback and status 1. The help is
  written by \<^verbatim>\<open>argparse\<close>; that it is written is taken for granted.
\<close>

definition backslash :: char where
  "backslash = CHR 0x5C"

definition main :: "'a world \<Rightarrow> string list \<Rightarrow> int \<times> event list" where
  "main w argv =
     (if length argv = 1 then (1, [Print_help])
      else
        (case parse_args w argv of
           SystemExit status \<Rightarrow> (status, [])
         | Namespace args_input args_output_format args_output \<Rightarrow>
             (let input_file = replace_char backslash sep args_input;
                  output_file =
                    (if falsy args_output then None
                     else Some (replace_char backslash sep (the args_output)))
              in case convert_audio w input_file args_output_format output_file of
                   (Inl e, t) \<Rightarrow> (1, t)
                 | (Inr success, t) \<Rightarrow> (if success then 0 else 1, t))))"

section \<open>Notions of the specification\<close>

text \<open>
  Two tokens are the same up to case when they have the same length and their characters
  agree once lowered.
\<close>

definition same_ignoring_case :: "string \<Rightarrow> string \<Rightarrow> bool" where
  "same_ignoring_case s t = list_all2 (\<lambda>x y. lower_char x = lower_char y) s t"

text \<open>
  A world in which everything works, with one file \<^verbatim>\<open>song.wav\<close> (also as \<^verbatim>\<open>a/song.wav\<close>)
  and the directories \<^verbatim>\<open>a\<close>, \<^verbatim>\<open>b\<close> and \<^verbatim>\<open>b/\<close>; the decoded audio is the unit value. The
  concrete runs below change one field of it at a time.
\<close>

definition healthy :: "unit world" where
  "healthy =
     \<lparr>subprocess_run = Completed,
      os_path_exists = (\<lambda>p. p \<in> set [''song.wav'', ''a/song.wav'', ''a'', ''b'', ''b/'']),
      os_path_isfile = (\<lambda>p. p \<in> set [''song.wav'', ''a/song.wav'']),
      os_path_isdir = (\<lambda>p. p \<in> set [''a'', ''b'', ''b/'']),
      os_mkdir = (\<lambda>p. if p \<in> set [''a'', ''b'', ''b/'']
                        then Some (Exc ''FileExistsError'' ''[Errno 17] File exists'') else None),
      from_file = (\<lambda>p. Inr ()),
      export = (\<lambda>a p f. None),
      print_raises = (\<lambda>s. None),
      argparse_other = (\<lambda>argv. SystemExit 2)\<rparr>"


definition no_engine :: "unit world" where
  "no_engine =
     healthy\<lparr>subprocess_run :=
       Caught (Exc ''FileNotFoundError'' ''[Errno 2] No such file or directory'')\<rparr>"

definition broken_stdout :: "unit world" where
  "broken_stdout =
     healthy\<lparr>print_raises := (\<lambda>s. Some (Exc ''ValueError'' ''I/O operation on closed file.''))\<rparr>"


definition everything_is_a_directory :: "unit world" where
  "everything_is_a_directory = healthy\<lparr>os_path_isdir := (\<lambda>p. True)\<rparr>"

text \<open>The standard output takes every line.\<close>

definition stdout_ok :: "'a world \<Rightarrow> bool" where
  "stdout_ok w = (\<forall>s. print_raises w s = None)"

text \<open>
  The five steps of the orchestrator in their order, and what it means for one of them to
  fail on a request, said of the world and not of the program: the version query fails
  and no local \<^verbatim>\<open>ffmpeg.exe\<close> makes up for it; the input is no file; the format is none of
  the seven up to case; \<^verbatim>\<open>os.makedirs\<close> raises on the directory of the resolved output;
  the engine raises on decoding the input or on exporting to the resolved output. A step
  is judged on its own, whether or not the run gets there.
\<close>

datatype step =
  Engine_check | Existence_check | Format_validation | Directory_creation | Engine_conversion

definition steps :: "step list" where
  "steps =
     [Engine_check, Existence_check, Format_validation, Directory_creation, Engine_conversion]"

definition fails :: "'a world \<Rightarrow> string \<Rightarrow> string \<Rightarrow> string option \<Rightarrow> step \<Rightarrow> bool" where
  "fails w input_file output_format output_file s =
     (case s of
        Engine_check \<Rightarrow>
          (case subprocess_run w of
             Completed \<Rightarrow> False
           | Caught _ \<Rightarrow> \<not> os_path_exists w ''ffmpeg.exe''
           | Uncaught _ \<Rightarrow> True)
      | Existence_check \<Rightarrow> \<not> os_path_isfile w input_file
      | Format_validation \<Rightarrow>
          \<not> list_ex (same_ignoring_case output_format)
               [''mp3'', ''wav'', ''ogg'', ''m4a'', ''flac'', ''aac'', ''wma'']
      | Directory_creation \<Rightarrow>
          (let d = dirname (resolve_output w input_file output_format output_file)
           in d \<noteq> [] \<and> os_makedirs w d True \<noteq> None)
      | Engine_conversion \<Rightarrow>
          (case from_file w input_file of
             Inl _ \<Rightarrow> True
           | Inr audio \<Rightarrow>
               export w audio (resolve_output w input_file output_format output_file)
                 output_format \<noteq> None))"

fun rank :: "step \<Rightarrow> nat" where
  "rank Engine_check = 0"
| "rank Existence_check = 1"
| "rank Format_validation = 2"
| "rank Directory_creation = 3"
| "rank Engine_conversion = 4"

text \<open>The step an event belongs to; a printed line belongs to none.\<close>

fun step_of :: "event \<Rightarrow> step option" where
  "step_of Run_ffmpeg_version = Some Engine_check"
| "step_of (Makedirs _) = Some Directory_creation"
| "step_of (From_file _) = Some Engine_conversion"
| "step_of (Export _ _) = Some Engine_conversion"
| "step_of _ = None"

definition no_later_than :: "step \<Rightarrow> event \<Rightarrow> bool" where
  "no_later_than s e = (case step_of e of None \<Rightarrow> True | Some s' \<Rightarrow> rank s' \<le> rank s)"

text \<open>The directory with the slash that \<^verbatim>\<open>os.path.join\<close> puts after it.\<close>

definition with_slash :: "string \<Rightarrow> string" where
  "with_slash d = (if endswith d sep then d else d @ [sep])"

section \<open>The runs of the conversion, case by case\<close>

lemma py_print_ok: "stdout_ok w \<Longrightarrow> py_print w s = (Inr (), [Print s])"
  by (simp add: stdout_ok_def py_print_def)

lemmas run_defs = and_then_def except_Exception_def returns_def emit_def

lemma check_ffmpeg_quiet:
  "stdout_ok w \<Longrightarrow> check_ffmpeg w =
     (case subprocess_run w of
        Completed \<Rightarrow> (Inr True, [Run_ffmpeg_version])
      | Caught _ \<Rightarrow>
          if os_path_exists w ''ffmpeg.exe'' then (Inr True, [Run_ffmpeg_version])
          else (Inr False, [Run_ffmpeg_version, Print ffmpeg_guidance])
      | Uncaught e \<Rightarrow> (Inl e, [Run_ffmpeg_version]))"
  by (simp add: check_ffmpeg_def run_defs py_print_ok split: probe.splits)

lemma check_ffmpeg_events:
  "list_all (\<lambda>e. e = Run_ffmpeg_version \<or> is_print e) (snd (check_ffmpeg w))"
  by (simp add: check_ffmpeg_def run_defs py_print_def split: probe.splits option.splits)

lemma check_ffmpeg_False:
  "fst (check_ffmpeg w) = Inr False \<Longrightarrow>
   check_ffmpeg w = (Inr False, [Run_ffmpeg_version, Print ffmpeg_guidance])"
  by (simp add: check_ffmpeg_def run_defs py_print_def split: probe.splits option.splits if_splits)

lemma check_ffmpeg_True:
  "fst (check_ffmpeg w) = Inr True \<Longrightarrow> check_ffmpeg w = (Inr True, [Run_ffmpeg_version])"
  by (simp add: check_ffmpeg_def run_defs py_print_def split: probe.splits option.splits if_splits)

lemma check_ffmpeg_passes:
  "fst (check_ffmpeg w) = Inr True \<longleftrightarrow> \<not> fails w i f ou Engine_check"
  by (simp add: check_ffmpeg_def fails_def run_defs py_print_def
      split: probe.splits option.splits)

lemma create_output_dir_quiet:
  "stdout_ok w \<Longrightarrow> create_output_dir w out =
     (if dirname out \<noteq> [] then
        (case os_makedirs w (dirname out) True of
           None \<Rightarrow> (Inr True, [Makedirs (dirname out),
                               Print (''Created/verified directory: '' @ dirname out)])
         | Some e \<Rightarrow> (Inr False, [Makedirs (dirname out),
              Print (''Error creating directory '' @ dirname out @ '': '' @ exc_msg e)]))
      else (Inr True, []))"
  by (simp add: create_output_dir_def Let_def call_makedirs_def run_defs py_print_ok
      split: option.splits)

lemma load_and_convert_quiet:
  "stdout_ok w \<Longrightarrow> load_and_convert w i f out =
     (case from_file w i of
        Inl e \<Rightarrow> (Inr False, [Print (''Loading '' @ i @ ''...''), From_file i,
                   Print (''Conversion error: '' @ exc_msg e),
                   Print (''Full error details: '' @ exc_type e)])
      | Inr audio \<Rightarrow>
          (case export w audio out f of
             Some e \<Rightarrow> (Inr False, [Print (''Loading '' @ i @ ''...''), From_file i,
                   Print (''Converting to '' @ f @ ''...''), Export out f,
                   Print (''Conversion error: '' @ exc_msg e),
                   Print (''Full error details: '' @ exc_type e)])
           | None \<Rightarrow> (Inr True, [Print (''Loading '' @ i @ ''...''), From_file i,
                   Print (''Converting to '' @ f @ ''...''), Export out f,
                   Print (''Successfully saved to: '' @ out)])))"
  by (simp add: load_and_convert_def call_from_file_def call_export_def run_defs py_print_ok
      split: sum.splits option.splits)

lemma convert_audio_quiet:
  "stdout_ok w \<Longrightarrow> convert_audio w i f ou =
     (case check_ffmpeg w of
        (Inl e, t0) \<Rightarrow> (Inr False, t0 @ [Print (''Unexpected error: '' @ exc_msg e)])
      | (Inr available, t0) \<Rightarrow>
          if \<not> available then (Inr False, t0)
          else if \<not> os_path_isfile w i then
            (Inr False, t0 @ [Print (''Error: Input file not found: '' @ i)])
          else if \<not> validate_format f then
            (Inr False, t0 @
               [Print (''Error: Unsupported output format: '' @ f),
                Print (''Supported formats: '' @ str_join '', '' get_supported_formats)])
          else
            (case create_output_dir w (resolve_output w i f ou) of
               (Inl e, t1) \<Rightarrow> (Inr False, t0 @ t1 @ [Print (''Unexpected error: '' @ exc_msg e)])
             | (Inr created, t1) \<Rightarrow>
                 if \<not> created then (Inr False, t0 @ t1)
                 else
                   (case load_and_convert w i f (resolve_output w i f ou) of
                      (Inl e, t2) \<Rightarrow>
                        (Inr False, t0 @ t1 @ t2 @ [Print (''Unexpected error: '' @ exc_msg e)])
                    | (Inr b, t2) \<Rightarrow> (Inr b, t0 @ t1 @ t2))))"
  by (simp add: convert_audio_def convert_audio_try_def Let_def run_defs py_print_ok
      split: prod.splits sum.splits)

lemma list_all2_same_image: "list_all2 (\<lambda>x y. g x = g y) xs ys \<longleftrightarrow> map g xs = map g ys"
  by (induction xs arbitrary: ys) (auto simp: list_all2_Cons1)

lemma lower_supported: "f \<in> set get_supported_formats \<Longrightarrow> lower f = f"
proof -
  have "list_all (\<lambda>f. lower f = f) get_supported_formats" by code_simp
  then show "f \<in> set get_supported_formats \<Longrightarrow> lower f = f" by (simp add: list_all_iff)
qed

lemma validate_format_iff:
  "validate_format t \<longleftrightarrow> (\<exists>f\<in>set get_supported_formats. same_ignoring_case t f)"
proof
  assume "validate_format t"
  then have m: "lower t \<in> set get_supported_formats" by (simp add: validate_format_def)
  from lower_supported[OF m] have "same_ignoring_case t (lower t)"
    by (simp add: same_ignoring_case_def list_all2_same_image lower_def)
  with m show "\<exists>f\<in>set get_supported_formats. same_ignoring_case t f" by blast
next
  assume "\<exists>f\<in>set get_supported_formats. same_ignoring_case t f"
  then obtain f where f: "f \<in> set get_supported_formats" and s: "same_ignoring_case t f" by blast
  from s have "lower t = lower f"
    by (simp add: same_ignoring_case_def list_all2_same_image lower_def)
  with lower_supported[OF f] f show "validate_format t" by (simp add: validate_format_def)
qed

lemma validate_format_passes: "validate_format f \<longleftrightarrow> \<not> fails w i f ou Format_validation"
  by (simp add: validate_format_iff fails_def list_ex_iff get_supported_formats_def)

lemma all_steps:
  "list_all P steps \<longleftrightarrow>
   P Engine_check \<and> P Existence_check \<and> P Format_validation \<and> P Directory_creation \<and>
   P Engine_conversion"
  by (simp add: steps_def)

lemma no_later_than_print [simp]: "no_later_than s (Print m)"
  by (simp add: no_later_than_def)

lemma no_later_than_run [simp]: "no_later_than s Run_ffmpeg_version"
  by (simp add: no_later_than_def)

lemma no_later_than_conversion [simp]: "no_later_than Engine_conversion e"
  by (cases e) (simp_all add: no_later_than_def)

lemma no_later_than_makedirs [simp]: "no_later_than Directory_creation (Makedirs d)"
  by (simp add: no_later_than_def)

text \<open>The six ways a run can go when every line is printed.\<close>

lemma convert_audio_raised:
  "stdout_ok w \<Longrightarrow> subprocess_run w = Uncaught e \<Longrightarrow>
   convert_audio w i f ou =
     (Inr False, [Run_ffmpeg_version, Print (''Unexpected error: '' @ exc_msg e)])"
  by (simp add: convert_audio_quiet check_ffmpeg_quiet)

lemma convert_audio_unavailable:
  "stdout_ok w \<Longrightarrow> subprocess_run w = Caught e \<Longrightarrow> \<not> os_path_exists w ''ffmpeg.exe'' \<Longrightarrow>
   convert_audio w i f ou = (Inr False, [Run_ffmpeg_version, Print ffmpeg_guidance])"
  by (simp add: convert_audio_quiet check_ffmpeg_quiet)

lemma convert_audio_not_found:
  "stdout_ok w \<Longrightarrow> \<not> fails w i f ou Engine_check \<Longrightarrow> \<not> os_path_isfile w i \<Longrightarrow>
   convert_audio w i f ou =
     (Inr False, [Run_ffmpeg_version, Print (''Error: Input file not found: '' @ i)])"
  using check_ffmpeg_True[of w] check_ffmpeg_passes[of w i f ou]
  by (simp add: convert_audio_quiet)

lemma convert_audio_unsupported:
  "stdout_ok w \<Longrightarrow> \<not> fails w i f ou Engine_check \<Longrightarrow> os_path_isfile w i \<Longrightarrow>
   \<not> validate_format f \<Longrightarrow>
   convert_audio w i f ou =
     (Inr False, [Run_ffmpeg_version, Print (''Error: Unsupported output format: '' @ f),
                  Print (''Supported formats: '' @ str_join '', '' get_supported_formats)])"
  using check_ffmpeg_True[of w] check_ffmpeg_passes[of w i f ou]
  by (simp add: convert_audio_quiet)

lemma convert_audio_no_directory:
  "stdout_ok w \<Longrightarrow> \<not> fails w i f ou Engine_check \<Longrightarrow> os_path_isfile w i \<Longrightarrow>
   validate_format f \<Longrightarrow> d = dirname (resolve_output w i f ou) \<Longrightarrow> d \<noteq> [] \<Longrightarrow>
   os_makedirs w d True = Some e \<Longrightarrow>
   convert_audio w i f ou =
     (Inr False, [Run_ffmpeg_version, Makedirs d,
                  Print (''Error creating directory '' @ d @ '': '' @ exc_msg e)])"
  using check_ffmpeg_True[of w] check_ffmpeg_passes[of w i f ou]
  by (simp add: convert_audio_quiet create_output_dir_quiet)

lemma convert_audio_converts:
  "stdout_ok w \<Longrightarrow> \<not> fails w i f ou Engine_check \<Longrightarrow> os_path_isfile w i \<Longrightarrow>
   validate_format f \<Longrightarrow> out = resolve_output w i f ou \<Longrightarrow>
   \<not> fails w i f ou Directory_creation \<Longrightarrow>
   convert_audio w i f ou =
     (fst (load_and_convert w i f out),
      Run_ffmpeg_version #
      (if dirname out \<noteq> []
       then [Makedirs (dirname out), Print (''Created/verified directory: '' @ dirname out)]
       else []) @
      snd (load_and_convert w i f out))"
  using check_ffmpeg_True[of w] check_ffmpeg_passes[of w i f ou]
  by (cases "load_and_convert w i f (resolve_output w i f ou)")
     (auto simp: convert_audio_quiet create_output_dir_quiet load_and_convert_quiet fails_def Let_def
        split: sum.splits option.splits)

lemma load_and_convert_result:
  "stdout_ok w \<Longrightarrow>
   fst (load_and_convert w i f (resolve_output w i f ou)) =
     Inr (\<not> fails w i f ou Engine_conversion)"
  by (simp add: load_and_convert_quiet fails_def split: sum.splits option.splits)


lemma run_cases:
  obtains (raised) e where "subprocess_run w = Uncaught e"
  | (unavailable) e where "subprocess_run w = Caught e" "\<not> os_path_exists w ''ffmpeg.exe''"
  | (not_found) "\<not> fails w i f ou Engine_check" "\<not> os_path_isfile w i"
  | (unsupported) "\<not> fails w i f ou Engine_check" "os_path_isfile w i" "\<not> validate_format f"
  | (no_directory) e where "\<not> fails w i f ou Engine_check" "os_path_isfile w i"
      "validate_format f" "dirname (resolve_output w i f ou) \<noteq> []"
      "os_makedirs w (dirname (resolve_output w i f ou)) True = Some e"
  | (converts) "\<not> fails w i f ou Engine_check" "os_path_isfile w i" "validate_format f"
      "\<not> fails w i f ou Directory_creation"
proof (cases "fails w i f ou Engine_check")
  case True
  then show ?thesis using raised unavailable
    by (cases "subprocess_run w") (auto simp: fails_def)
next
  case False
  then show ?thesis using not_found unsupported no_directory converts
    by (cases "os_makedirs w (dirname (resolve_output w i f ou)) True")
       (auto simp: fails_def Let_def)
qed

lemma convert_audio_result:
  assumes "stdout_ok w"
  shows "fst (convert_audio w i f ou) = Inr (list_all (\<lambda>s. \<not> fails w i f ou s) steps)"
proof (cases rule: run_cases[where w=w and i=i and f=f and ou=ou])
  case (raised e)
  then show ?thesis using assms by (simp add: convert_audio_raised all_steps fails_def)
next
  case (unavailable e)
  then show ?thesis using assms by (simp add: convert_audio_unavailable all_steps fails_def)
next
  case not_found
  then show ?thesis using assms
    by (simp add: convert_audio_not_found all_steps) (simp add: fails_def)
next
  case unsupported
  then show ?thesis using assms validate_format_passes[of f w i ou]
    by (simp add: convert_audio_unsupported all_steps)
next
  case (no_directory e)
  then have "fails w i f ou Directory_creation" by (simp add: fails_def)
  with no_directory show ?thesis using assms
    by (simp add: convert_audio_no_directory all_steps)
next
  case converts
  then show ?thesis using assms validate_format_passes[of f w i ou]
    by (simp add: convert_audio_converts load_and_convert_result all_steps) (simp add: fails_def)
qed




lemma early_exit_events:
  assumes "fst (check_ffmpeg w) \<noteq> Inr True \<or> \<not> os_path_isfile w i"
  shows "fst (convert_audio w i f ou) \<noteq> Inr True
    \<and> list_all (\<lambda>e. e = Run_ffmpeg_version \<or> is_print e) (snd (convert_audio w i f ou))"
proof (cases "check_ffmpeg w")
  case (Pair r t0)
  with check_ffmpeg_events[of w] have t0: "list_all (\<lambda>e. e = Run_ffmpeg_version \<or> is_print e) t0"
    by simp
  from assms Pair have "r \<noteq> Inr True \<or> \<not> os_path_isfile w i" by simp
  with Pair t0 show ?thesis
    by (cases r)
       (auto simp: convert_audio_def convert_audio_try_def run_defs py_print_def
          split: option.splits)
qed

lemma only_run_and_print:
  "list_all (\<lambda>e. e = Run_ffmpeg_version \<or> is_print e) t \<Longrightarrow>
   \<not> list_ex is_makedirs t \<and> \<not> list_ex is_conversion t"
proof (induction t)
  case Nil
  then show ?case by simp
next
  case (Cons a t)
  then show ?case by (cases a) auto
qed

lemma convert_audio_quiet_result:
  "stdout_ok w \<Longrightarrow> fst (convert_audio w i f ou) \<noteq> Inr True \<Longrightarrow>
   fst (convert_audio w i f ou) = Inr False"
  using convert_audio_result[of w i f ou] by auto



section \<open>Facts about paths, formats and the command line\<close>

lemma after_last_free: "c \<notin> set (after_last c p)"
  by (auto simp: after_last_def dest: set_takeWhileD)

lemma upto_last_absent: "c \<notin> set p \<Longrightarrow> upto_last c p = []"
  by (auto simp: upto_last_def dropWhile_eq_Nil_conv)

lemma after_last_absent: "c \<notin> set p \<Longrightarrow> after_last c p = p"
proof -
  assume "c \<notin> set p"
  then have "takeWhile (\<lambda>x. x \<noteq> c) (rev p) = rev p"
    by (intro takeWhile_eq_all_conv[THEN iffD2]) auto
  then show ?thesis unfolding after_last_def by (simp only: rev_rev_ident)
qed

lemma set_upto_last: "set (upto_last c p) \<subseteq> set p"
  using set_dropWhileD[of _ "\<lambda>x. x \<noteq> c" "rev p"] by (auto simp: upto_last_def)

lemma after_last_append:
  assumes "c \<notin> set b" and "p = [] \<or> last p = c"
  shows "after_last c (p @ b) = b"
proof (cases "p = []")
  case True
  with assms show ?thesis by (simp add: after_last_absent)
next
  case False
  with assms have l: "last p = c" by simp
  from False l obtain q where "p = q @ [c]" by (cases p rule: rev_cases) simp_all
  then have t: "takeWhile (\<lambda>x. x \<noteq> c) (rev p) = []" by simp
  have "takeWhile (\<lambda>x. x \<noteq> c) (rev b @ rev p) = rev b @ takeWhile (\<lambda>x. x \<noteq> c) (rev p)"
    using assms(1) by (intro takeWhile_append2) auto
  with t show ?thesis by (simp add: after_last_def)
qed

lemma upto_last_append:
  assumes "c \<notin> set b" and "p = [] \<or> last p = c"
  shows "upto_last c (p @ b) = p"
proof (cases "p = []")
  case True
  with assms show ?thesis by (simp add: upto_last_absent)
next
  case False
  with assms have l: "last p = c" by simp
  from False l obtain q where "p = q @ [c]" by (cases p rule: rev_cases) simp_all
  then have t: "dropWhile (\<lambda>x. x \<noteq> c) (rev p) = rev p" by simp
  have "dropWhile (\<lambda>x. x \<noteq> c) (rev b @ rev p) = dropWhile (\<lambda>x. x \<noteq> c) (rev p)"
    using assms(1) by (intro dropWhile_append2) auto
  with t show ?thesis by (simp add: upto_last_def)
qed

lemma basename_append: "sep \<notin> set b \<Longrightarrow> p = [] \<or> last p = sep \<Longrightarrow> basename (p @ b) = b"
  by (simp add: basename_def after_last_append)

lemma splitext_name_ext:
  assumes "sep \<notin> set n" "sep \<notin> set x" "extsep \<notin> set x" "list_ex (\<lambda>c. c \<noteq> extsep) n"
  shows "splitext (n @ extsep # x) = (n, extsep # x)"
proof -
  let ?b = "n @ extsep # x"
  have s: "sep \<notin> set ?b" using assms by (simp add: sep_def extsep_def)
  have u: "upto_last extsep ?b = n @ [extsep]"
    using upto_last_append[of extsep x "n @ [extsep]"] assms(3) by simp
  have a: "after_last extsep ?b = x"
    using after_last_append[of extsep x "n @ [extsep]"] assms(3) by simp
  from s u a assms(4) show ?thesis
    by (simp add: splitext_def Let_def after_last_absent upto_last_absent)
qed

lemma splitext_no_ext:
  assumes "list_all (\<lambda>c. c = extsep) ds" "sep \<notin> set x" "extsep \<notin> set x"
  shows "splitext (ds @ x) = (ds @ x, [])"
proof -
  let ?b = "ds @ x"
  have s: "sep \<notin> set ?b" using assms by (auto simp: sep_def extsep_def list_all_iff)
  have "upto_last extsep ?b = ds"
    using upto_last_append[of extsep x ds] assms(1,3)
    by (cases ds rule: rev_cases) (simp_all add: list_all_iff)
  moreover have "\<not> list_ex (\<lambda>c. c \<noteq> extsep) (butlast ds)"
    using assms(1) by (auto simp: list_all_iff list_ex_iff dest: in_set_butlastD)
  ultimately show ?thesis using s
    by (simp add: splitext_def Let_def after_last_absent)
qed

lemma original_filename_name_ext:
  assumes "p = [] \<or> last p = sep" "sep \<notin> set n" "sep \<notin> set x" "extsep \<notin> set x"
    "list_ex (\<lambda>c. c \<noteq> extsep) n"
  shows "original_filename (p @ n @ extsep # x) = n"
proof -
  have "sep \<notin> set (n @ extsep # x)" using assms by (simp add: sep_def extsep_def)
  from basename_append[OF this assms(1)] splitext_name_ext[OF assms(2-5)]
  show ?thesis by (simp add: original_filename_def)
qed

lemma original_filename_no_ext:
  assumes "p = [] \<or> last p = sep" "list_all (\<lambda>c. c = extsep) ds" "sep \<notin> set x"
    "extsep \<notin> set x"
  shows "original_filename (p @ ds @ x) = ds @ x"
proof -
  have "sep \<notin> set (ds @ x)" using assms by (auto simp: sep_def extsep_def list_all_iff)
  from basename_append[OF this assms(1)] splitext_no_ext[OF assms(2-4)]
  show ?thesis by (simp add: original_filename_def)
qed

lemma original_filename_free: "sep \<notin> set (original_filename i)"
proof -
  let ?b = "basename i"
  have b: "sep \<notin> set ?b" by (simp add: basename_def after_last_free)
  have "set (butlast (upto_last extsep ?b)) \<subseteq> set ?b"
    using set_upto_last[of extsep ?b] by (auto dest: in_set_butlastD)
  with b show ?thesis
    by (auto simp: original_filename_def splitext_def Let_def upto_last_absent after_last_absent)
qed

lemma validate_format_free: "validate_format f \<Longrightarrow> sep \<notin> set f"
proof
  assume v: "validate_format f" and "sep \<in> set f"
  then have "lower_char sep \<in> set (lower f)" by (simp add: lower_def)
  moreover have "lower_char sep = sep" by code_simp
  moreover have "list_all (\<lambda>g. sep \<notin> set g) get_supported_formats" by code_simp
  ultimately show False using v by (auto simp: validate_format_def list_all_iff)
qed

lemma dirname_bare: "sep \<notin> set p \<Longrightarrow> dirname p = []"
  by (simp add: dirname_def upto_last_absent)

lemma name_not_absolute: "\<not> startswith (original_filename i @ ''.'' @ f) sep"
proof (cases "original_filename i")
  case Nil
  then show ?thesis by (simp add: startswith_def sep_def)
next
  case (Cons c cs)
  with original_filename_free[of i] show ?thesis by (auto simp: startswith_def)
qed

lemma join_name:
  "a \<noteq> [] \<Longrightarrow> join a (original_filename i @ ''.'' @ f) =
     with_slash a @ original_filename i @ ''.'' @ f"
  using name_not_absolute[of i f] by (simp add: join_def with_slash_def)

lemma existing_directory_resolved:
  "output_file \<noteq> [] \<Longrightarrow> os_path_isdir w output_file \<Longrightarrow>
   resolve_output w input_file output_format (Some output_file) =
     with_slash output_file @ original_filename input_file @ ''.'' @ output_format"
  using join_name[of output_file input_file output_format]
  by (simp add: resolve_output_def falsy_def)

text \<open>
  The resolution of an output path that is given and is no directory, in general: the
  name is replaced when the path has a directory part, and the path is kept as it is
  when it has none.
\<close>

lemma file_like_output:
  "output_file \<noteq> [] \<Longrightarrow> \<not> os_path_isdir w output_file \<Longrightarrow>
   resolve_output w input_file output_format (Some output_file) =
     (if dirname output_file \<noteq> []
      then join (dirname output_file) (original_filename input_file @ ''.'' @ output_format)
      else output_file)"
  by (simp add: resolve_output_def falsy_def Let_def)

lemma exit_of_result:
  "(case r of (Inl e, t) \<Rightarrow> (1 :: int, t) | (Inr success, t) \<Rightarrow> (if success then 0 else 1, t)) =
     (if fst r = Inr True then 0 else 1, snd r)"
  by (cases r; cases "fst r") auto

lemma finish_status: "finish ns u = SystemExit n \<Longrightarrow> n = 2"
  by (simp add: finish_def split: option.splits if_splits)

lemma parse_known_status: "parse_known ns u args = SystemExit n \<Longrightarrow> n = 0 \<or> n = 2"
  by (induction ns u args rule: parse_known.induct) (auto split: if_splits dest: finish_status)

lemma parse_known_help:
  "parse_known ns u args = SystemExit 0 \<Longrightarrow> ''-h'' \<in> set args \<or> ''--help'' \<in> set args"
  by (induction ns u args rule: parse_known.induct) (auto split: if_splits dest: finish_status)

lemma finish_missing:
  "ns_input ns = None \<or> ns_output_format ns = None \<Longrightarrow> finish ns u = SystemExit 2"
  by (auto simp: finish_def split: option.splits)

lemma store_keeps:
  "(a \<noteq> ''--input'' \<longrightarrow> ns_input (store a v ns) = ns_input ns)
   \<and> (a \<noteq> ''--output_format'' \<longrightarrow> ns_output_format (store a v ns) = ns_output_format ns)"
  by (simp add: store_def)

lemma parse_known_missing:
  "''-h'' \<notin> set args \<Longrightarrow> ''--help'' \<notin> set args \<Longrightarrow>
   (ns_input ns = None \<and> ''--input'' \<notin> set args)
     \<or> (ns_output_format ns = None \<and> ''--output_format'' \<notin> set args) \<Longrightarrow>
   parse_known ns u args = SystemExit 2"
proof (induction ns u args rule: parse_known.induct)
  case (1 ns unrecognised)
  then show ?case by (auto intro: finish_missing)
next
  case (2 ns unrecognised a)
  then show ?case by (auto intro: finish_missing)
next
  case (3 ns unrecognised a v rest)
  show ?case
  proof (cases "a \<in> set value_options \<and> plain_argument v")
    case True
    have "(ns_input (store a v ns) = None \<and> ''--input'' \<notin> set rest)
     \<or> (ns_output_format (store a v ns) = None \<and> ''--output_format'' \<notin> set rest)"
      using "3.prems"(3) store_keeps[of a v ns] by auto
    with "3.IH"(1) "3.prems"(1,2) True show ?thesis by auto
  next
    case False
    with "3.IH"(2) "3.prems" show ?thesis by auto
  qed
qed

lemma parse_known_help_first:
  "h = ''-h'' \<or> h = ''--help'' \<Longrightarrow> parse_known ns u (h # rest) = SystemExit 0"
  by (cases rest) auto

section \<open>The claims\<close>

text \<open>
  C1. An output path that is given and names no existing directory contributes only its
  directory: the resolved name is the input's stem, a dot and the requested format. This
  holds of \<^verbatim>\<open>c/renamed.ogg\<close>, resolved to \<^verbatim>\<open>c/song.ogg\<close>. It does not hold of a path with
  an empty directory part: for the input \<^verbatim>\<open>song.wav\<close>, the format \<^verbatim>\<open>mp3\<close> and the output
  path \<^verbatim>\<open>renamed.ogg\<close> the program keeps \<^verbatim>\<open>renamed.ogg\<close> and has the engine write mp3 data
  to it, against the comment of that branch ("ensure it has the correct extension").
\<close>

theorem bare_output_name_kept:
  "resolve_output healthy ''a/song.wav'' ''ogg'' (Some ''c/renamed.ogg'') = ''c/song.ogg''
   \<and> \<not> os_path_isdir healthy ''renamed.ogg'' \<and> dirname ''renamed.ogg'' = []
   \<and> resolve_output healthy ''song.wav'' ''mp3'' (Some ''renamed.ogg'') = ''renamed.ogg''
   \<and> convert_audio healthy ''song.wav'' ''mp3'' (Some ''renamed.ogg'') =
       (Inr True, [Run_ffmpeg_version, Print ''Loading song.wav...'', From_file ''song.wav'',
                   Print ''Converting to mp3...'', Export ''renamed.ogg'' ''mp3'',
                   Print ''Successfully saved to: renamed.ogg''])"
proof -
  have "resolve_output healthy ''a/song.wav'' ''ogg'' (Some ''c/renamed.ogg'') = ''c/song.ogg''"
    by code_simp
  moreover have "\<not> os_path_isdir healthy ''renamed.ogg''" by code_simp
  moreover have "dirname ''renamed.ogg'' = []" by code_simp
  moreover have "resolve_output healthy ''song.wav'' ''mp3'' (Some ''renamed.ogg'') = ''renamed.ogg''"
    by code_simp
  moreover have "convert_audio healthy ''song.wav'' ''mp3'' (Some ''renamed.ogg'') =
       (Inr True, [Run_ffmpeg_version, Print ''Loading song.wav...'', From_file ''song.wav'',
                   Print ''Converting to mp3...'', Export ''renamed.ogg'' ''mp3'',
                   Print ''Successfully saved to: renamed.ogg''])"
    by code_simp
  ultimately show ?thesis by blast
qed

text \<open>
  C2. With no output path the resolved output is the input's stem, a dot and the format,
  placed in the directory of the input file. The name is as claimed (\<^verbatim>\<open>song.mp3\<close> for
  \<^verbatim>\<open>song.wav\<close>), but it is a bare name, relative to the working directory: for the input
  \<^verbatim>\<open>a/song.wav\<close> the engine writes \<^verbatim>\<open>song.mp3\<close>, not \<^verbatim>\<open>a/song.mp3\<close>, against the comment
  of that branch ("save in same directory as input").
\<close>

theorem no_output_goes_to_current_directory:
  "resolve_output healthy ''song.wav'' ''mp3'' None = ''song.mp3''
   \<and> dirname ''a/song.wav'' = ''a''
   \<and> resolve_output healthy ''a/song.wav'' ''mp3'' None = ''song.mp3''
   \<and> dirname (resolve_output healthy ''a/song.wav'' ''mp3'' None) = []
   \<and> convert_audio healthy ''a/song.wav'' ''mp3'' None =
       (Inr True, [Run_ffmpeg_version, Print ''Loading a/song.wav...'', From_file ''a/song.wav'',
                   Print ''Converting to mp3...'', Export ''song.mp3'' ''mp3'',
                   Print ''Successfully saved to: song.mp3''])"
proof -
  have "resolve_output healthy ''song.wav'' ''mp3'' None = ''song.mp3''" by code_simp
  moreover have "dirname ''a/song.wav'' = ''a''" by code_simp
  moreover have "resolve_output healthy ''a/song.wav'' ''mp3'' None = ''song.mp3''" by code_simp
  moreover have "dirname (resolve_output healthy ''a/song.wav'' ''mp3'' None) = []" by code_simp
  moreover have "convert_audio healthy ''a/song.wav'' ''mp3'' None =
       (Inr True, [Run_ffmpeg_version, Print ''Loading a/song.wav...'', From_file ''a/song.wav'',
                   Print ''Converting to mp3...'', Export ''song.mp3'' ''mp3'',
                   Print ''Successfully saved to: song.mp3''])"
    by code_simp
  ultimately show ?thesis by blast
qed

text \<open>
  C3. \<^verbatim>\<open>validate_format\<close> is a membership test up to case in the fixed set of seven
  formats: a token validates exactly when it is one of them up to case; \<^verbatim>\<open>MP3\<close> and
  \<^verbatim>\<open>mp3\<close> validate, the empty token and \<^verbatim>\<open>xyz\<close> do not. The function is a pure function
  of its argument.
\<close>

theorem validate_format_case_insensitive:
  "(validate_format t \<longleftrightarrow> (\<exists>f\<in>set get_supported_formats. same_ignoring_case t f))
   \<and> set get_supported_formats = {''mp3'', ''wav'', ''ogg'', ''m4a'', ''flac'', ''aac'', ''wma''}
   \<and> validate_format ''MP3'' \<and> validate_format ''mp3''
   \<and> \<not> validate_format [] \<and> \<not> validate_format ''xyz''"
proof -
  have "set get_supported_formats = {''mp3'', ''wav'', ''ogg'', ''m4a'', ''flac'', ''aac'', ''wma''}"
    by (simp add: get_supported_formats_def)
  moreover have "validate_format ''MP3''" by code_simp
  moreover have "validate_format ''mp3''" by code_simp
  moreover have "\<not> validate_format []" by code_simp
  moreover have "\<not> validate_format ''xyz''" by code_simp
  ultimately show ?thesis using validate_format_iff[of t] by blast
qed

theorem validate_format_case_insensitive_witness:
  "same_ignoring_case ''FlAc'' ''flac'' \<and> validate_format ''FlAc''"
proof -
  have s: "same_ignoring_case ''FlAc'' ''flac''" by code_simp
  have m: "''flac'' \<in> set get_supported_formats" by (simp add: get_supported_formats_def)
  from validate_format_case_insensitive[of "''FlAc''"] s m show ?thesis by blast
qed



text \<open>
  C5. When the engine availability check does not succeed (it returns \<^verbatim>\<open>False\<close>, or an
  exception leaves it), \<^verbatim>\<open>convert_audio\<close> never returns \<^verbatim>\<open>True\<close> and has changed nothing in
  the file system: \<^verbatim>\<open>os.makedirs\<close> is not called and the engine is not called, whatever
  else the world does. With a standard output that takes every line the value returned is
  \<^verbatim>\<open>False\<close>. When the check returns \<^verbatim>\<open>False\<close> the run is the version query and the
  printed guidance, nothing else, and the value is \<^verbatim>\<open>False\<close>.
\<close>

theorem unreachable_engine_no_mutation:
  assumes "fst (check_ffmpeg w) \<noteq> Inr True"
  shows "fst (convert_audio w input_file output_format output_file) \<noteq> Inr True
    \<and> \<not> list_ex is_makedirs (snd (convert_audio w input_file output_format output_file))
    \<and> \<not> list_ex is_conversion (snd (convert_audio w input_file output_format output_file))
    \<and> (stdout_ok w \<longrightarrow> fst (convert_audio w input_file output_format output_file) = Inr False)
    \<and> (fst (check_ffmpeg w) = Inr False \<longrightarrow>
         convert_audio w input_file output_format output_file =
           (Inr False, [Run_ffmpeg_version, Print ffmpeg_guidance]))"
proof -
  from assms have e: "fst (check_ffmpeg w) \<noteq> Inr True \<or> \<not> os_path_isfile w input_file" by simp
  note a = early_exit_events[OF e, of output_format output_file]
  from a have 1: "fst (convert_audio w input_file output_format output_file) \<noteq> Inr True" by simp
  from a only_run_and_print
  have 2: "\<not> list_ex is_makedirs (snd (convert_audio w input_file output_format output_file))
    \<and> \<not> list_ex is_conversion (snd (convert_audio w input_file output_format output_file))"
    by blast
  from 1 have 3: "stdout_ok w \<longrightarrow>
      fst (convert_audio w input_file output_format output_file) = Inr False"
    by (simp add: convert_audio_quiet_result)
  have 4: "convert_audio w input_file output_format output_file =
           (Inr False, [Run_ffmpeg_version, Print ffmpeg_guidance])"
    if "fst (check_ffmpeg w) = Inr False"
    using check_ffmpeg_False[OF that]
    by (simp add: convert_audio_def convert_audio_try_def run_defs)
  from 1 2 3 4 show ?thesis by blast
qed

theorem unreachable_engine_no_mutation_witness:
  "fst (check_ffmpeg no_engine) \<noteq> Inr True \<and> stdout_ok no_engine
   \<and> convert_audio no_engine ''song.wav'' ''mp3'' (Some ''c/out.mp3'') =
       (Inr False, [Run_ffmpeg_version, Print ffmpeg_guidance])"
proof -
  have c: "fst (check_ffmpeg no_engine) = Inr False" by code_simp
  then have h: "fst (check_ffmpeg no_engine) \<noteq> Inr True" by simp
  have q: "stdout_ok no_engine" by (simp add: stdout_ok_def no_engine_def healthy_def)
  from unreachable_engine_no_mutation[OF h, of "''song.wav''" "''mp3''" "Some ''c/out.mp3''"] c h q
  show ?thesis by simp
qed




text \<open>
  C7. When the output path names an existing directory, the resolved output is that
  directory joined with the input's stem, a dot and the format: the directory, a slash
  unless it ends with one, and the name. The stem is what the program computes from the
  input, and it is the name without its directory and its extension: for an input
  \<open>p @ n @ ''.'' @ x\<close>, where \<open>p\<close> is empty or ends with a slash, \<open>n\<close> and \<open>x\<close> have no
  slash, \<open>x\<close> has no dot and \<open>n\<close> is not made of dots only, the stem is \<open>n\<close>; for an input
  whose last component is dots followed by a part \<open>x\<close> without a dot (no extension, or a
  hidden file), the stem is that whole component. \<^verbatim>\<open>a/song.wav\<close> with the format \<^verbatim>\<open>flac\<close>
  and the existing directory \<^verbatim>\<open>b/\<close> resolves to \<^verbatim>\<open>b/song.flac\<close>.
\<close>

theorem existing_directory_output:
  assumes "output_file \<noteq> []" and "os_path_isdir w output_file"
  shows "resolve_output w input_file output_format (Some output_file) =
           (if endswith output_file sep then output_file else output_file @ [sep]) @
           original_filename input_file @ ''.'' @ output_format
    \<and> ((p = [] \<or> last p = sep) \<and> sep \<notin> set n \<and> sep \<notin> set x \<and> extsep \<notin> set x
         \<and> list_ex (\<lambda>c. c \<noteq> extsep) n \<longrightarrow>
         resolve_output w (p @ n @ ''.'' @ x) output_format (Some output_file) =
           (if endswith output_file sep then output_file else output_file @ [sep]) @
           n @ ''.'' @ output_format)
    \<and> ((p = [] \<or> last p = sep) \<and> list_all (\<lambda>c. c = extsep) ds \<and> sep \<notin> set x
         \<and> extsep \<notin> set x \<longrightarrow>
         resolve_output w (p @ ds @ x) output_format (Some output_file) =
           (if endswith output_file sep then output_file else output_file @ [sep]) @
           ds @ x @ ''.'' @ output_format)"
proof (intro conjI impI)
  note r = existing_directory_resolved[OF assms, unfolded with_slash_def]
  show "resolve_output w input_file output_format (Some output_file) =
           (if endswith output_file sep then output_file else output_file @ [sep]) @
           original_filename input_file @ ''.'' @ output_format"
    by (rule r)
  {
    assume a: "(p = [] \<or> last p = sep) \<and> sep \<notin> set n \<and> sep \<notin> set x \<and> extsep \<notin> set x
         \<and> list_ex (\<lambda>c. c \<noteq> extsep) n"
    then have "original_filename (p @ n @ extsep # x) = n"
      by (intro original_filename_name_ext) simp_all
    then have "original_filename (p @ n @ ''.'' @ x) = n" by (simp add: extsep_def)
    with r[of "p @ n @ ''.'' @ x" output_format]
    show "resolve_output w (p @ n @ ''.'' @ x) output_format (Some output_file) =
           (if endswith output_file sep then output_file else output_file @ [sep]) @
           n @ ''.'' @ output_format"
      by simp
  }
  {
    assume a: "(p = [] \<or> last p = sep) \<and> list_all (\<lambda>c. c = extsep) ds \<and> sep \<notin> set x
         \<and> extsep \<notin> set x"
    then have "original_filename (p @ ds @ x) = ds @ x"
      by (intro original_filename_no_ext) simp_all
    with r[of "p @ ds @ x" output_format]
    show "resolve_output w (p @ ds @ x) output_format (Some output_file) =
           (if endswith output_file sep then output_file else output_file @ [sep]) @
           ds @ x @ ''.'' @ output_format"
      by simp
  }
qed

theorem existing_directory_output_witness:
  "''b/'' \<noteq> [] \<and> os_path_isdir healthy ''b/'' \<and> os_path_isdir healthy ''b''
   \<and> resolve_output healthy ''a/song.wav'' ''flac'' (Some ''b/'') = ''b/song.flac''
   \<and> resolve_output healthy ''a/song.wav'' ''flac'' (Some ''b'') = ''b/song.flac''
   \<and> resolve_output healthy ''a/.hidden'' ''flac'' (Some ''b'') = ''b/.hidden.flac''"
proof -
  have d1: "os_path_isdir healthy ''b/''" by (simp add: healthy_def)
  have d2: "os_path_isdir healthy ''b''" by (simp add: healthy_def)
  have e1: "endswith ''b/'' sep" by code_simp
  have e2: "\<not> endswith ''b'' sep" by code_simp
  have c: "(''a/'' = [] \<or> last ''a/'' = sep) \<and> sep \<notin> set ''song'' \<and> sep \<notin> set ''wav''
      \<and> extsep \<notin> set ''wav'' \<and> list_ex (\<lambda>c. c \<noteq> extsep) ''song''"
    by code_simp
  have c': "(''a/'' = [] \<or> last ''a/'' = sep) \<and> list_all (\<lambda>c. c = extsep) ''.''
      \<and> sep \<notin> set ''hidden'' \<and> extsep \<notin> set ''hidden''"
    by code_simp
  from existing_directory_output[of "''b/''" healthy _ "''flac''" "''a/''" "''song''" "''wav''"]
    d1 c
  have "resolve_output healthy (''a/'' @ ''song'' @ ''.'' @ ''wav'') ''flac'' (Some ''b/'') =
      (if endswith ''b/'' sep then ''b/'' else ''b/'' @ [sep]) @ ''song'' @ ''.'' @ ''flac''"
    by blast
  then have a: "resolve_output healthy ''a/song.wav'' ''flac'' (Some ''b/'') = ''b/song.flac''"
    by (simp add: e1)
  from existing_directory_output[of "''b''" healthy _ "''flac''" "''a/''" "''song''" "''wav''"]
    d2 c
  have "resolve_output healthy (''a/'' @ ''song'' @ ''.'' @ ''wav'') ''flac'' (Some ''b'') =
      (if endswith ''b'' sep then ''b'' else ''b'' @ [sep]) @ ''song'' @ ''.'' @ ''flac''"
    by blast
  then have b: "resolve_output healthy ''a/song.wav'' ''flac'' (Some ''b'') = ''b/song.flac''"
    by (simp add: e2) (simp add: sep_def)
  from existing_directory_output[of "''b''" healthy _ "''flac''" "''a/''" _ "''hidden''" "''.''"]
    d2 c'
  have "resolve_output healthy (''a/'' @ ''.'' @ ''hidden'') ''flac'' (Some ''b'') =
      (if endswith ''b'' sep then ''b'' else ''b'' @ [sep]) @ ''.'' @ ''hidden'' @ ''.'' @ ''flac''"
    by blast
  then have h: "resolve_output healthy ''a/.hidden'' ''flac'' (Some ''b'') = ''b/.hidden.flac''"
    by (simp add: e2) (simp add: sep_def)
  from d1 d2 a b h show ?thesis by simp
qed



text \<open>
  C9, as the program has it. With no argument at all the program prints the usage and
  exits with status 1. When the command line parses, the exit status is 0 if
  \<^verbatim>\<open>convert_audio\<close> returns \<^verbatim>\<open>True\<close> and 1 otherwise. When \<^verbatim>\<open>argparse\<close> ends the process
  itself, the exit status is its own and \<^verbatim>\<open>convert_audio\<close> is not called. On the command
  lines written out above that status is 0 or 2, and 0 only if \<^verbatim>\<open>-h\<close> or \<^verbatim>\<open>--help\<close> is
  among the arguments; it is 2 whenever \<^verbatim>\<open>--input\<close> or \<^verbatim>\<open>--output_format\<close> is missing and
  no help is asked for; it is 0 when the first argument is \<^verbatim>\<open>-h\<close> or \<^verbatim>\<open>--help\<close>.
\<close>

theorem main_exit_status:
  "(length argv = 1 \<longrightarrow> main w argv = (1, [Print_help]))
   \<and> (length argv \<noteq> 1 \<and> parse_args w argv = Namespace a b c \<longrightarrow>
        main w argv =
          (if fst (convert_audio w (replace_char backslash sep a) b
                     (if falsy c then None else Some (replace_char backslash sep (the c))))
                = Inr True
           then 0 else 1,
           snd (convert_audio w (replace_char backslash sep a) b
                  (if falsy c then None else Some (replace_char backslash sep (the c))))))
   \<and> (length argv \<noteq> 1 \<and> parse_args w argv = SystemExit n \<longrightarrow> main w argv = (n, []))
   \<and> (in_fragment (tl argv) \<and> parse_args w argv = SystemExit n \<longrightarrow>
        (n = 0 \<or> n = 2) \<and> (n = 0 \<longrightarrow> ''-h'' \<in> set (tl argv) \<or> ''--help'' \<in> set (tl argv)))
   \<and> (length argv \<noteq> 1 \<and> in_fragment (tl argv)
        \<and> ''-h'' \<notin> set (tl argv) \<and> ''--help'' \<notin> set (tl argv)
        \<and> (''--input'' \<notin> set (tl argv) \<or> ''--output_format'' \<notin> set (tl argv)) \<longrightarrow>
        main w argv = (2, []))
   \<and> (in_fragment (h # rest) \<and> (h = ''-h'' \<or> h = ''--help'') \<longrightarrow>
        main w (prog # h # rest) = (0, []))"
proof (intro conjI impI)
  assume "length argv = 1"
  then show "main w argv = (1, [Print_help])" by (simp add: main_def)
next
  assume h: "length argv \<noteq> 1 \<and> parse_args w argv = Namespace a b c"
  let ?r = "convert_audio w (replace_char backslash sep a) b
             (if falsy c then None else Some (replace_char backslash sep (the c)))"
  from h have "main w argv =
      (case ?r of (Inl e, t) \<Rightarrow> (1, t) | (Inr success, t) \<Rightarrow> (if success then 0 else 1, t))"
    by (simp add: main_def Let_def split del: if_split)
  then show "main w argv = (if fst ?r = Inr True then 0 else 1, snd ?r)"
    by (simp only: exit_of_result)
next
  assume "length argv \<noteq> 1 \<and> parse_args w argv = SystemExit n"
  then show "main w argv = (n, [])" by (simp add: main_def)
next
  assume "in_fragment (tl argv) \<and> parse_args w argv = SystemExit n"
  then show "n = 0 \<or> n = 2" by (auto simp: parse_args_def dest: parse_known_status)
next
  assume "in_fragment (tl argv) \<and> parse_args w argv = SystemExit n" and "n = 0"
  then show "''-h'' \<in> set (tl argv) \<or> ''--help'' \<in> set (tl argv)"
    by (auto simp: parse_args_def dest: parse_known_help)
next
  assume a: "length argv \<noteq> 1 \<and> in_fragment (tl argv)
        \<and> ''-h'' \<notin> set (tl argv) \<and> ''--help'' \<notin> set (tl argv)
        \<and> (''--input'' \<notin> set (tl argv) \<or> ''--output_format'' \<notin> set (tl argv))"
  then have "parse_known \<lparr>ns_input = None, ns_output_format = None, ns_output = None\<rparr> False
      (tl argv) = SystemExit 2"
    by (intro parse_known_missing) auto
  with a show "main w argv = (2, [])" by (simp add: main_def parse_args_def)
next
  assume a: "in_fragment (h # rest) \<and> (h = ''-h'' \<or> h = ''--help'')"
  then have "parse_known \<lparr>ns_input = None, ns_output_format = None, ns_output = None\<rparr> False
      (h # rest) = SystemExit 0"
    by (intro parse_known_help_first) simp
  with a show "main w (prog # h # rest) = (0, [])" by (simp add: main_def parse_args_def)
qed

theorem main_exit_status_witness:
  "main healthy [''audio-converter.py''] = (1, [Print_help])
   \<and> parse_args healthy [''audio-converter.py'', ''--input'', ''song.wav'', ''--output_format'', ''mp3'']
       = Namespace ''song.wav'' ''mp3'' None
   \<and> fst (main healthy [''audio-converter.py'', ''--input'', ''song.wav'', ''--output_format'', ''mp3'']) = 0
   \<and> parse_args healthy [''audio-converter.py'', ''--input'', ''nosuch.wav'', ''--output_format'', ''mp3'']
       = Namespace ''nosuch.wav'' ''mp3'' None
   \<and> fst (main healthy [''audio-converter.py'', ''--input'', ''nosuch.wav'', ''--output_format'', ''mp3'']) = 1
   \<and> fst (main broken_stdout [''audio-converter.py'', ''--input'', ''nosuch.wav'', ''--output_format'', ''mp3'']) = 1
   \<and> in_fragment [''--input'', ''song.wav'']
   \<and> main healthy [''audio-converter.py'', ''--input'', ''song.wav''] = (2, [])
   \<and> main healthy [''audio-converter.py'', ''--output_format'', ''mp3''] = (2, [])
   \<and> main healthy [''audio-converter.py'', ''-h'', ''--input''] = (0, [])"
proof -
  let ?ok = "[''audio-converter.py'', ''--input'', ''song.wav'', ''--output_format'', ''mp3'']"
  let ?missing = "[''audio-converter.py'', ''--input'', ''nosuch.wav'', ''--output_format'', ''mp3'']"
  let ?short = "[''audio-converter.py'', ''--input'', ''song.wav'']"
  let ?short2 = "[''audio-converter.py'', ''--output_format'', ''mp3'']"
  have u: "main healthy [''audio-converter.py''] = (1, [Print_help])"
    using main_exit_status[where argv = "[''audio-converter.py'']" and w = healthy] by simp
  have p1: "parse_args healthy ?ok = Namespace ''song.wav'' ''mp3'' None" by code_simp
  have n1: "replace_char backslash sep ''song.wav'' = ''song.wav''" by code_simp
  have r1: "fst (convert_audio healthy ''song.wav'' ''mp3'' None) = Inr True" by code_simp
  have e1: "fst (main healthy ?ok) = 0"
    using main_exit_status[where argv = ?ok and w = healthy and a = "''song.wav''"
        and b = "''mp3''" and c = None] p1 r1
    by (simp add: n1 falsy_def)
  have p2: "parse_args healthy ?missing = Namespace ''nosuch.wav'' ''mp3'' None" by code_simp
  have n2: "replace_char backslash sep ''nosuch.wav'' = ''nosuch.wav''" by code_simp
  have r2: "fst (convert_audio healthy ''nosuch.wav'' ''mp3'' None) = Inr False" by code_simp
  have e2: "fst (main healthy ?missing) = 1"
    using main_exit_status[where argv = ?missing and w = healthy and a = "''nosuch.wav''"
        and b = "''mp3''" and c = None] p2 r2
    by (simp add: n2 falsy_def)
  have p3: "parse_args broken_stdout ?missing = Namespace ''nosuch.wav'' ''mp3'' None"
    by code_simp
  have r3: "fst (convert_audio broken_stdout ''nosuch.wav'' ''mp3'' None) =
      Inl (Exc ''ValueError'' ''I/O operation on closed file.'')" by code_simp
  have e3: "fst (main broken_stdout ?missing) = 1"
    using main_exit_status[where argv = ?missing and w = broken_stdout and a = "''nosuch.wav''"
        and b = "''mp3''" and c = None] p3 r3
    by (simp add: n2 falsy_def)
  have f: "in_fragment [''--input'', ''song.wav'']" by code_simp
  have f2: "in_fragment [''--output_format'', ''mp3'']" by code_simp
  have f3: "in_fragment [''-h'', ''--input'']" by code_simp
  have s1: "main healthy ?short = (2, [])"
    using main_exit_status[where argv = ?short and w = healthy] f by simp
  have s2: "main healthy ?short2 = (2, [])"
    using main_exit_status[where argv = ?short2 and w = healthy] f2 by simp
  have s3: "main healthy [''audio-converter.py'', ''-h'', ''--input''] = (0, [])"
    using main_exit_status[where h = "''-h''" and rest = "[''--input'']" and w = healthy
        and prog = "''audio-converter.py''"] f3 by simp
  from u p1 e1 p2 e2 e3 f s1 s2 s3 show ?thesis by blast
qed

text \<open>
  C9 as stated (status 0 exactly when the conversion returns true, status 1 on any
  validation failure) fails on two command lines: with \<^verbatim>\<open>--output_format\<close> missing the
  status is 2, and with \<^verbatim>\<open>--help\<close> the status is 0 although nothing was converted.
\<close>

theorem main_exit_status_counterexample:
  "fst (main healthy [''audio-converter.py'', ''--input'', ''song.wav'']) = 2
   \<and> main healthy [''audio-converter.py'', ''--help''] = (0, [])"
proof -
  have "fst (main healthy [''audio-converter.py'', ''--input'', ''song.wav'']) = 2" by code_simp
  moreover have "main healthy [''audio-converter.py'', ''--help''] = (0, [])" by code_simp
  ultimately show ?thesis by blast
qed

text \<open>
  C10. An empty output path is treated as an absent one: the whole run is the same, the
  resolved output is the input's stem, a dot and the format, whatever the file system
  says about the empty path, and for a supported format it has no directory part.
\<close>

theorem empty_output_is_absent:
  "convert_audio w input_file output_format (Some []) = convert_audio w input_file output_format None
   \<and> resolve_output w input_file output_format (Some []) =
       original_filename input_file @ ''.'' @ output_format
   \<and> (validate_format output_format \<longrightarrow>
        dirname (resolve_output w input_file output_format (Some [])) = [])"
proof -
  have r: "resolve_output w input_file output_format (Some []) =
           resolve_output w input_file output_format None"
    by (simp add: resolve_output_def falsy_def)
  have n: "resolve_output w input_file output_format (Some []) =
           original_filename input_file @ ''.'' @ output_format"
    by (simp add: resolve_output_def falsy_def)
  have "dirname (original_filename input_file @ ''.'' @ output_format) = []"
    if "validate_format output_format"
    using validate_format_free[OF that] original_filename_free[of input_file]
    by (intro dirname_bare) (simp add: sep_def)
  then have d: "validate_format output_format \<longrightarrow>
      dirname (resolve_output w input_file output_format (Some [])) = []"
    by (simp only: n) simp
  have "convert_audio w input_file output_format (Some []) =
        convert_audio w input_file output_format None"
    by (simp only: convert_audio_def convert_audio_try_def r)
  with n d show ?thesis by blast
qed

theorem empty_output_is_absent_witness:
  "os_path_isdir everything_is_a_directory [] \<and> validate_format ''mp3''
   \<and> resolve_output everything_is_a_directory ''a/song.wav'' ''mp3'' (Some []) = ''song.mp3''
   \<and> dirname (resolve_output everything_is_a_directory ''a/song.wav'' ''mp3'' (Some [])) = []"
proof -
  have d: "os_path_isdir everything_is_a_directory []" by code_simp
  have v: "validate_format ''mp3''" by code_simp
  have n: "original_filename ''a/song.wav'' = ''song''" by code_simp
  from empty_output_is_absent[of everything_is_a_directory "''a/song.wav''" "''mp3''"]
  have r: "resolve_output everything_is_a_directory ''a/song.wav'' ''mp3'' (Some []) =
           original_filename ''a/song.wav'' @ ''.'' @ ''mp3''"
    and e: "validate_format ''mp3'' \<longrightarrow>
           dirname (resolve_output everything_is_a_directory ''a/song.wav'' ''mp3'' (Some [])) = []"
    by blast+
  from r n have "resolve_output everything_is_a_directory ''a/song.wav'' ''mp3'' (Some []) =
      ''song.mp3''" by simp
  with d v e show ?thesis by blast
qed

end
